theory Spec2Isabelle
  imports Complex_Main "HOL-Library.Sublist"
begin

section \<open>Values and errors of the notebook's Python\<close>

text \<open>
  The APOGEE + TESS tutorial notebook works on numpy arrays of floating-point numbers.
  Where the notebook only compares, selects and truncates floats, a float is modelled as
  either the undefined value \<open>NaN\<close> or a defined number (a real; no arithmetic is done on
  it). The one place where the notebook computes with floats, the wavelength axis, has
  its own type of binary64 values with rounding and infinities, further down. A cell of
  an astropy table column read from a FITS file is a float or the masked element
  (\<open>None\<close>): \<open>Table.read\<close> masks the invalid entries of a column.
\<close>

datatype npfloat = NaN | Num real

type_synonym cell = "npfloat option"

datatype pyerror =
    ValueError string
  | IndexError string
  | OverflowError string
  | ExternalError string

fun message :: "pyerror \<Rightarrow> string" where
  "message (ValueError m) = m"
| "message (IndexError m) = m"
| "message (OverflowError m) = m"
| "message (ExternalError m) = m"

text \<open>\<open>xs[i]\<close> for a literal non-negative index: out of range raises IndexError.\<close>

definition item :: "'a list \<Rightarrow> nat \<Rightarrow> pyerror + 'a" where
  "item xs i = (if i < length xs then Inr (xs ! i) else Inl (IndexError ''index out of bounds''))"

text \<open>The comparisons of floats: every comparison with NaN is false.\<close>

fun fl_less :: "npfloat \<Rightarrow> npfloat \<Rightarrow> bool" where
  "fl_less (Num a) (Num b) = (a < b)"
| "fl_less _ _ = False"

fun fl_ge :: "npfloat \<Rightarrow> npfloat \<Rightarrow> bool" where
  "fl_ge (Num a) (Num b) = (b \<le> a)"
| "fl_ge _ _ = False"

fun isnan :: "npfloat \<Rightarrow> bool" where
  "isnan NaN = True"
| "isnan (Num _) = False"

section \<open>Closest match: \<open>tess_obs[np.argmin(tess_obs['distance'])]\<close>\<close>

text \<open>
  One row of the table an archive query returns; only the columns the notebook reads.
\<close>

record obs_row =
  obs_id :: string
  s_ra :: real
  s_dec :: real
  distance :: npfloat

text \<open>
  \<open>np.argmin\<close> on a float array scans from the left, keeps the running minimum \<open>mp\<close> and its
  index, replaces them when the next element is not \<open>\<ge> mp\<close>, and stops at the first NaN
  (which is thereby the answer). On an empty array it raises ValueError.
\<close>

fun argmin_loop :: "npfloat list \<Rightarrow> nat \<Rightarrow> npfloat \<Rightarrow> nat \<Rightarrow> nat" where
  "argmin_loop [] i mp best = best"
| "argmin_loop (x # xs) i mp best =
     (if isnan mp then best
      else if \<not> fl_ge x mp then argmin_loop xs (Suc i) x i
      else argmin_loop xs (Suc i) mp best)"

definition np_argmin :: "npfloat list \<Rightarrow> pyerror + nat" where
  "np_argmin a =
     (case a of
        [] \<Rightarrow> Inl (ValueError ''attempt to get argmin of an empty sequence'')
      | x # xs \<Rightarrow> Inr (argmin_loop xs 1 x 0))"

definition closest_match :: "obs_row list \<Rightarrow> pyerror + obs_row" where
  "closest_match tess_obs =
     (case np_argmin (map distance tess_obs) of
        Inl e \<Rightarrow> Inl e
      | Inr i \<Rightarrow> Inr (tess_obs ! i))"

text \<open>The defined value of a float (only used where the float is known to be defined).\<close>

fun num_of :: "npfloat \<Rightarrow> real" where
  "num_of (Num r) = r"
| "num_of NaN = 0"

section \<open>Wavelength axis: \<open>apogee_wls = np.logspace(CRVAL1, CRVAL1 + CDELT1 * NAXIS1, NAXIS1)\<close>\<close>

text \<open>
  The header scalars and the samples of the wavelength axis are binary64 floats: a finite
  value (a real that is representable; the values read from a header and the results of
  the operations below are), an infinity or NaN. The two zeros are not told apart: they
  compare equal, and nothing here divides by a zero.
\<close>

datatype f64 = Fin64 real | PosInf | NegInf | NaN64

text \<open>
  Rounding to the nearest binary64 value, ties to even: a real \<open>x\<close> with
  \<open>2^e \<le> |x| < 2^(e+1)\<close> is rounded to a multiple of \<open>2^(e-52)\<close>, with \<open>e\<close> not below
  -1022 (the subnormal range), and a result of magnitude \<open>2^1024\<close> or more is an infinity.
\<close>

definition round_half_even :: "real \<Rightarrow> int" where
  "round_half_even x =
     (let f = \<lfloor>x\<rfloor>; d = x - of_int f
      in if d < 1 / 2 then f else if 1 / 2 < d then f + 1 else if even f then f else f + 1)"

definition exponent64 :: "real \<Rightarrow> int" where
  "exponent64 x = max \<lfloor>log 2 \<bar>x\<bar>\<rfloor> (- 1022)"

definition overflow64 :: real where
  "overflow64 = 2 ^ 1024"

definition round64 :: "real \<Rightarrow> f64" where
  "round64 x =
     (if x = 0 then Fin64 0
      else
        let q = 2 powr (of_int (exponent64 x) - 52);
            r = q * of_int (round_half_even (x / q))
        in if overflow64 \<le> r then PosInf else if r \<le> - overflow64 then NegInf else Fin64 r)"













text \<open>
  The aspcapStar file as the notebook reads it: the header scalars of extensions 1 and 3,
  the observed flux (extension 1), the error array (extension 2), the model flux
  (extension 3) and the parameter table (extension 4) with its columns \<open>APOGEE_ID\<close> and
  \<open>FPARAM\<close>.
\<close>

record aspcap_row =
  spec_APOGEE_ID :: string
  FPARAM :: "npfloat list"

record aspcap_file =
  hdu1_CRVAL1 :: f64
  hdu1_CDELT1 :: f64
  hdu1_NAXIS1 :: int
  hdu3_NAXIS1 :: int
  hdu1_data :: "npfloat list"
  hdu2_data :: "npfloat list"
  hdu3_data :: "npfloat list"
  hdu4_data :: "aspcap_row list"


section \<open>The figure\<close>

text \<open>
  What the plotting calls put on the three axes. Calls that only set axis labels, fixed
  axis limits, the grid, the colour bar and the legend are left out.
\<close>

record scatter =
  sc_x :: "cell list"
  sc_y :: "cell list"
  sc_c :: "cell list"
  sc_marker :: string
  sc_s :: nat
  sc_vmin :: real
  sc_vmax :: real
  sc_zorder :: nat
  sc_label :: "string option"

record hr_axes =
  ax1_scatters :: "scatter list"
  ax1_title :: string

record 'x line =
  ln_x :: "'x list"
  ln_y :: "npfloat list"
  ln_c :: string
  ln_label :: string

record spec_axes =
  ax2_lines :: "real line list"
  ax2_xlim :: "real \<times> real"
  ax2_title :: string

record lc_axes =
  ax3_lines :: "npfloat line list"
  ax3_vlines :: "int list"
  ax3_title :: string

record figure =
  ax1 :: hr_axes
  ax2 :: spec_axes
  ax3 :: lc_axes

section \<open>AX1: the HR diagram\<close>

text \<open>One row of the allStar catalog (\<open>Table.read\<close>); only the columns the notebook reads.\<close>

record allstar_row =
  APOGEE_ID :: string
  TEFF :: cell
  LOGG :: cell
  FE_H :: cell

text \<open>The slice \<open>a[::10]\<close>: the elements at the indices 0, 10, 20, ...\<close>

fun slice10 :: "'a list \<Rightarrow> 'a list" where
  "slice10 [] = []"
| "slice10 (x # xs) = x # slice10 (drop 9 xs)"

text \<open>\<open>np.where(col == v)[0]\<close>: the indices at which the column equals \<open>v\<close>, ascending.\<close>

definition np_where_eq :: "string list \<Rightarrow> string \<Rightarrow> nat list" where
  "np_where_eq col v = filter (\<lambda>i. col ! i = v) [0..<length col]"

text \<open>
  The truth value of a table cell in \<open>if allstar['TEFF'][indx]:\<close>. The masked element is
  false, a float is false exactly when it is zero, so NaN is true.
\<close>

fun truthy :: "cell \<Rightarrow> bool" where
  "truthy None = False"
| "truthy (Some NaN) = True"
| "truthy (Some (Num r)) = (r \<noteq> 0)"

definition quality_warning :: string where
  "quality_warning = ''WARNING: Quality Warning Flags on ASPCAP star parameters. ASPCAP parameters may not be reliable for this star.''"

definition catalog_scatter :: "allstar_row list \<Rightarrow> scatter" where
  "catalog_scatter allstar =
     \<lparr>sc_x = slice10 (map TEFF allstar), sc_y = slice10 (map LOGG allstar),
      sc_c = slice10 (map FE_H allstar), sc_marker = ''.'', sc_s = 1,
      sc_vmin = - 1, sc_vmax = 0.5, sc_zorder = 1, sc_label = None\<rparr>"

definition star_marker :: "cell \<Rightarrow> cell \<Rightarrow> cell \<Rightarrow> scatter" where
  "star_marker t g m =
     \<lparr>sc_x = [t], sc_y = [g], sc_c = [m], sc_marker = ''*'', sc_s = 1000,
      sc_vmin = - 1, sc_vmax = 0.5, sc_zorder = 5, sc_label = Some ''APOGEE Parameters''\<rparr>"

definition hr_title :: string where
  "hr_title = ''APOGEE Stellar Parameters - allStar''"

text \<open>
  The panel returns the axes, or the error that stopped it, together with the lines
  printed until then.
\<close>

definition hr_panel :: "allstar_row list \<Rightarrow> aspcap_file \<Rightarrow> (pyerror + hr_axes) \<times> string list" where
  "hr_panel allstar apogee_spec =
     (let im = catalog_scatter allstar in
      case item (map spec_APOGEE_ID (hdu4_data apogee_spec)) 0 of
        Inl e \<Rightarrow> (Inl e, [])
      | Inr sid \<Rightarrow>
      case item (np_where_eq (map APOGEE_ID allstar) sid) 0 of
        Inl e \<Rightarrow> (Inl e, [])
      | Inr indx \<Rightarrow>
          if truthy (map TEFF allstar ! indx) then
            (Inr \<lparr>ax1_scatters =
                    [im, star_marker (map TEFF allstar ! indx) (map LOGG allstar ! indx)
                           (map FE_H allstar ! indx)],
                  ax1_title = hr_title\<rparr>, [])
          else
            (case item (map FPARAM (hdu4_data apogee_spec)) 0 of
               Inl e \<Rightarrow> (Inl e, [quality_warning])
             | Inr fp \<Rightarrow>
             case item fp 0 of
               Inl e \<Rightarrow> (Inl e, [quality_warning])
             | Inr t \<Rightarrow>
             case item fp 1 of
               Inl e \<Rightarrow> (Inl e, [quality_warning])
             | Inr g \<Rightarrow>
             case item fp 3 of
               Inl e \<Rightarrow> (Inl e, [quality_warning])
             | Inr m \<Rightarrow>
                 (Inr \<lparr>ax1_scatters = [im, star_marker (Some t) (Some g) (Some m)],
                       ax1_title = hr_title\<rparr>, [quality_warning])))"

section \<open>AX2: the APOGEE spectrum\<close>

text \<open>
  Indexing with a boolean mask, \<open>a[mask]\<close>: the elements where the mask is true, in order;
  a mask of another length raises IndexError.
\<close>

definition mask_index :: "'a list \<Rightarrow> bool list \<Rightarrow> pyerror + 'a list" where
  "mask_index a msk =
     (if length msk \<noteq> length a
      then Inl (IndexError ''boolean index did not match indexed array along axis 0'')
      else Inr (map fst (filter snd (zip a msk))))"

text \<open>\<open>np.min\<close> and \<open>np.max\<close> of an array of defined numbers; empty raises ValueError.\<close>

definition np_min :: "real list \<Rightarrow> pyerror + real" where
  "np_min a =
     (case a of
        [] \<Rightarrow> Inl (ValueError ''zero-size array to reduction operation minimum which has no identity'')
      | x # xs \<Rightarrow> Inr (fold min xs x))"

definition np_max :: "real list \<Rightarrow> pyerror + real" where
  "np_max a =
     (case a of
        [] \<Rightarrow> Inl (ValueError ''zero-size array to reduction operation maximum which has no identity'')
      | x # xs \<Rightarrow> Inr (fold max xs x))"

definition pixel_mask_of :: "aspcap_file \<Rightarrow> bool list" where
  "pixel_mask_of apogee_spec = map (\<lambda>e. fl_less e (Num 0.1)) (hdu2_data apogee_spec)"

definition spectrum_panel :: "real list \<Rightarrow> aspcap_file \<Rightarrow> pyerror + spec_axes" where
  "spectrum_panel apogee_wls apogee_spec =
     (let observed_flux = hdu1_data apogee_spec;
          model_flux = hdu3_data apogee_spec;
          pixel_mask = pixel_mask_of apogee_spec
      in
      case mask_index apogee_wls pixel_mask of Inl e \<Rightarrow> Inl e | Inr wx \<Rightarrow>
      case mask_index observed_flux pixel_mask of Inl e \<Rightarrow> Inl e | Inr oy \<Rightarrow>
      case mask_index apogee_wls pixel_mask of Inl e \<Rightarrow> Inl e | Inr wx' \<Rightarrow>
      case mask_index model_flux pixel_mask of Inl e \<Rightarrow> Inl e | Inr my \<Rightarrow>
      case np_min apogee_wls of Inl e \<Rightarrow> Inl e | Inr lo \<Rightarrow>
      case np_max apogee_wls of Inl e \<Rightarrow> Inl e | Inr hi \<Rightarrow>
      case item (map spec_APOGEE_ID (hdu4_data apogee_spec)) 0 of Inl e \<Rightarrow> Inl e | Inr apogee_id \<Rightarrow>
        Inr \<lparr>ax2_lines =
               [\<lparr>ln_x = wx, ln_y = oy, ln_c = ''k'', ln_label = ''Observed Spectrum''\<rparr>,
                \<lparr>ln_x = wx', ln_y = my, ln_c = ''darkred'', ln_label = ''Best Fit Model Spectrum''\<rparr>],
             ax2_xlim = (lo, hi),
             ax2_title = ''APOGEE Spectrum - '' @ apogee_id\<rparr>)"

text \<open>
  The indices of the pixels whose uncertainty is below the threshold 0.1, ascending: the
  pixels the spectrum panel is to keep. Pixels with an undefined uncertainty are not among
  them.
\<close>

definition kept_pixels :: "npfloat list \<Rightarrow> nat list" where
  "kept_pixels err = filter (\<lambda>i. fl_less (err ! i) (Num 0.1)) [0..<length err]"

section \<open>AX3: the TESS light curve\<close>

record lc_row =
  TIME :: npfloat
  SAP_FLUX :: npfloat

record tess_file =
  hdu0_OBJECT :: string
  LIGHTCURVE :: "lc_row list"

text \<open>
  \<open>np.nanmin\<close> and \<open>np.nanmax\<close>: the minimum and maximum of the samples that are not NaN;
  NaN when every sample is NaN; ValueError on an empty array.
\<close>

definition defined_of :: "npfloat list \<Rightarrow> real list" where
  "defined_of a = map num_of (filter (\<lambda>v. \<not> isnan v) a)"

definition np_nanmin :: "npfloat list \<Rightarrow> pyerror + npfloat" where
  "np_nanmin a =
     (if a = [] then Inl (ValueError ''zero-size array to reduction operation fmin which has no identity'')
      else case defined_of a of [] \<Rightarrow> Inr NaN | x # xs \<Rightarrow> Inr (Num (fold min xs x)))"

definition np_nanmax :: "npfloat list \<Rightarrow> pyerror + npfloat" where
  "np_nanmax a =
     (if a = [] then Inl (ValueError ''zero-size array to reduction operation fmax which has no identity'')
      else case defined_of a of [] \<Rightarrow> Inr NaN | x # xs \<Rightarrow> Inr (Num (fold max xs x)))"

text \<open>\<open>int(x)\<close> of a float truncates towards zero and raises ValueError on NaN.\<close>

fun py_int :: "npfloat \<Rightarrow> pyerror + int" where
  "py_int NaN = Inl (ValueError ''cannot convert float NaN to integer'')"
| "py_int (Num r) = Inr (if 0 \<le> r then \<lfloor>r\<rfloor> else \<lceil>r\<rceil>)"

text \<open>\<open>range(a, b)\<close>.\<close>

definition py_range :: "int \<Rightarrow> int \<Rightarrow> int list" where
  "py_range a b = [a..b - 1]"

definition day_lines :: "npfloat list \<Rightarrow> pyerror + int list" where
  "day_lines time =
     (case np_nanmin time of Inl e \<Rightarrow> Inl e | Inr lo \<Rightarrow>
      case py_int lo of Inl e \<Rightarrow> Inl e | Inr a \<Rightarrow>
      case np_nanmax time of Inl e \<Rightarrow> Inl e | Inr hi \<Rightarrow>
      case py_int hi of Inl e \<Rightarrow> Inl e | Inr b \<Rightarrow>
        Inr (py_range a b))"

definition lc_panel :: "tess_file \<Rightarrow> pyerror + lc_axes" where
  "lc_panel tess_lightcurve =
     (let time = map TIME (LIGHTCURVE tess_lightcurve);
          flux = map SAP_FLUX (LIGHTCURVE tess_lightcurve)
      in
      case day_lines time of Inl e \<Rightarrow> Inl e | Inr days \<Rightarrow>
        Inr \<lparr>ax3_lines = [\<lparr>ln_x = time, ln_y = flux, ln_c = ''k'', ln_label = ''TESS Light Curve''\<rparr>],
             ax3_vlines = days,
             ax3_title = ''TESS-SPOC Light Curve - '' @ hdu0_OBJECT tess_lightcurve\<rparr>)"

section \<open>\<open>plot_spectrum_and_lc\<close>\<close>

text \<open>
  The state outside the function: the image files written by \<open>plt.savefig\<close>, the lines
  printed, and the figures displayed by \<open>plt.show\<close>. The catalog \<open>allstar\<close> and the
  wavelength array \<open>apogee_wls\<close> are globals of the notebook; they are passed in. The
  variable \<open>apogee_id\<close>, set while the spectrum panel is built, is read again for the
  file name.
\<close>

record world =
  files :: "string \<rightharpoonup> figure"
  stdout :: "string list"
  shown :: "figure list"

definition py_print :: "string \<Rightarrow> world \<Rightarrow> world" where
  "py_print s w = w\<lparr>stdout := stdout w @ [s]\<rparr>"

definition save_name_of :: "string \<Rightarrow> string" where
  "save_name_of apogee_id = apogee_id @ ''_APOGEE_spec_TESS_lightcurve.png''"

definition plot_spectrum_and_lc ::
  "allstar_row list \<Rightarrow> real list \<Rightarrow> aspcap_file \<Rightarrow> tess_file \<Rightarrow> world \<Rightarrow> (pyerror + unit) \<times> world" where
  "plot_spectrum_and_lc allstar apogee_wls apogee_spec tess_lightcurve w =
     (case hr_panel allstar apogee_spec of
        (Inl e, out) \<Rightarrow> (Inl e, w\<lparr>stdout := stdout w @ out\<rparr>)
      | (Inr a1, out) \<Rightarrow>
          let w1 = w\<lparr>stdout := stdout w @ out\<rparr> in
          case spectrum_panel apogee_wls apogee_spec of Inl e \<Rightarrow> (Inl e, w1) | Inr a2 \<Rightarrow>
          case lc_panel tess_lightcurve of Inl e \<Rightarrow> (Inl e, w1) | Inr a3 \<Rightarrow>
          case item (map spec_APOGEE_ID (hdu4_data apogee_spec)) 0 of Inl e \<Rightarrow> (Inl e, w1) | Inr apogee_id \<Rightarrow>
            let fig = \<lparr>ax1 = a1, ax2 = a2, ax3 = a3\<rparr>;
                save_name = save_name_of apogee_id;
                w2 = w1\<lparr>files := (files w1)(save_name \<mapsto> fig)\<rparr>;
                w3 = py_print (''Saved to '' @ save_name) w2
            in (Inr (), w3\<lparr>shown := shown w3 @ [fig]\<rparr>))"

section \<open>\<open>plot_variable_star\<close>\<close>

text \<open>
  The archive client and the FITS reader are external to the notebook. They are taken as
  parameters: each call returns a value or raises. A product listing is of an arbitrary
  type \<open>'p\<close>; \<open>download_products\<close> takes the keyword filter as a pair and returns the
  column \<open>manifest['Local Path']\<close>. The time-series query takes the right ascension and
  declination of the first APOGEE row (building the \<open>SkyCoord\<close> is part of it); its
  radius and filters are fixed. The download cache on disk is not part of the world.
\<close>

record 'p archive =
  query_criteria_apogee :: "string \<Rightarrow> pyerror + obs_row list"
  query_criteria_tess :: "real \<Rightarrow> real \<Rightarrow> pyerror + obs_row list"
  get_product_list :: "obs_row list \<Rightarrow> pyerror + 'p list"
  download_products :: "'p list \<Rightarrow> string \<times> string \<Rightarrow> pyerror + string list"
  fits_open_aspcap :: "string \<Rightarrow> pyerror + aspcap_file"
  fits_open_tess :: "string \<Rightarrow> pyerror + tess_file"

text \<open>
  One step of the function: the call raised, and the function stops in the world reached
  so far, or it returned a value, and the rest of the function runs with it.
\<close>

definition step :: "pyerror + 'a \<Rightarrow> world \<Rightarrow> ('a \<Rightarrow> (pyerror + 'b) \<times> world) \<Rightarrow> (pyerror + 'b) \<times> world" where
  "step r w k = (case r of Inl e \<Rightarrow> (Inl e, w) | Inr x \<Rightarrow> k x)"

definition plot_variable_star ::
  "'p archive \<Rightarrow> allstar_row list \<Rightarrow> real list \<Rightarrow> string \<Rightarrow> world \<Rightarrow> (pyerror + unit) \<times> world" where
  "plot_variable_star ar allstar apogee_wls apogee_id w =
     (let w1 = py_print (replicate 50 CHR ''='') w;
          w2 = py_print (''Plotting Spectrum and Light Curve for '' @ apogee_id) w1;
          w3 = py_print (replicate 50 CHR ''='') w2;
          w4 = py_print ''Searching For APOGEE Data...'' w3
      in
      step (query_criteria_apogee ar apogee_id) w4 (\<lambda>apogee_obs_list.
      let w5 = py_print ''Downloading APOGEE Data...'' w4 in
      step (get_product_list ar apogee_obs_list) w5 (\<lambda>product_list.
      step (download_products ar product_list (''productSubGroupDescription'', ''ASPCAPSTAR'')) w5 (\<lambda>manifest.
      step (item manifest 0) w5 (\<lambda>path.
      step (fits_open_aspcap ar path) w5 (\<lambda>aspcapstar.
      step (item (map s_ra apogee_obs_list) 0) w5 (\<lambda>ra.
      step (item (map s_dec apogee_obs_list) 0) w5 (\<lambda>dec.
      let w6 = py_print ''Searching For TESS Data...'' w5 in
      step (query_criteria_tess ar ra dec) w6 (\<lambda>tess_obs.
      step (closest_match tess_obs) w6 (\<lambda>tess_ob.
      let w7 = py_print ''Downloading TESS Data...'' w6 in
      step (get_product_list ar [tess_ob]) w7 (\<lambda>tess_products.
      step (download_products ar tess_products (''description'', ''Light curves'')) w7 (\<lambda>manifest'.
      step (item manifest' 0) w7 (\<lambda>path'.
      step (fits_open_tess ar path') w7 (\<lambda>tess_lc.
      let w8 = py_print ''Making Plot...'' w7 in
        plot_spectrum_and_lc allstar apogee_wls aspcapstar tess_lc w8))))))))))))))"

section \<open>Example data\<close>

definition ex_tess_obs :: "obs_row list" where
  "ex_tess_obs =
     [\<lparr>obs_id = ''tess-s0014'', s_ra = 297, s_dec = 43, distance = Num 2\<rparr>,
      \<lparr>obs_id = ''tess-s0015'', s_ra = 297, s_dec = 43, distance = Num 0\<rparr>,
      \<lparr>obs_id = ''tess-s0041'', s_ra = 297, s_dec = 43, distance = Num 0\<rparr>]"




definition ex_aspcap :: aspcap_file where
  "ex_aspcap =
     \<lparr>hdu1_CRVAL1 = round64 4.179, hdu1_CDELT1 = round64 0.000006,
      hdu1_NAXIS1 = 4, hdu3_NAXIS1 = 4,
      hdu1_data = [Num 1, Num 0.9, Num 0.8, Num 0.7],
      hdu2_data = [Num 0.01, Num 0.1, NaN, Num 0.05],
      hdu3_data = [Num 0.99, Num 0.91, Num 0.82, Num 0.71],
      hdu4_data = [\<lparr>spec_APOGEE_ID = ''V1154_Cyg'',
                     FPARAM = [Num 5900, Num 1.5, Num 2, Num (- 0.2), Num 0, Num 0, Num 0]\<rparr>]\<rparr>"

definition ex_wls :: "real list" where
  "ex_wls = [15101, 15102, 15103, 15104]"

definition ex_tess :: tess_file where
  "ex_tess =
     \<lparr>hdu0_OBJECT = ''TIC 272951532'',
      LIGHTCURVE =
        [\<lparr>TIME = NaN, SAP_FLUX = Num 5\<rparr>,
         \<lparr>TIME = Num 1683.4, SAP_FLUX = Num 100\<rparr>,
         \<lparr>TIME = Num 1684.2, SAP_FLUX = NaN\<rparr>,
         \<lparr>TIME = NaN, SAP_FLUX = NaN\<rparr>,
         \<lparr>TIME = Num 1685.9, SAP_FLUX = Num 102\<rparr>]\<rparr>"

definition ex_allstar :: "allstar_row list" where
  "ex_allstar =
     [\<lparr>APOGEE_ID = ''2M00000002+7417074'', TEFF = Some (Num 3700), LOGG = Some (Num 0.9), FE_H = Some (Num (- 0.15))\<rparr>,
      \<lparr>APOGEE_ID = ''2M00000019-1924498'', TEFF = Some (Num 5500), LOGG = Some (Num 4.1), FE_H = Some (Num (- 0.3))\<rparr>,
      \<lparr>APOGEE_ID = ''2M00000032+5737103'', TEFF = Some (Num 6200), LOGG = Some (Num 3.9), FE_H = Some (Num (- 0.2))\<rparr>,
      \<lparr>APOGEE_ID = ''V1154_Cyg'', TEFF = Some (Num 5800), LOGG = Some (Num 1.6), FE_H = Some (Num (- 0.1))\<rparr>,
      \<lparr>APOGEE_ID = ''2M00000068+5710233'', TEFF = Some (Num 5000), LOGG = Some (Num 3.4), FE_H = Some (Num 0)\<rparr>,
      \<lparr>APOGEE_ID = ''2M19203184+3830492'', TEFF = None, LOGG = None, FE_H = None\<rparr>,
      \<lparr>APOGEE_ID = ''2M00000133+5721163'', TEFF = Some (Num 4700), LOGG = Some (Num 2.5), FE_H = Some (Num (- 0.5))\<rparr>,
      \<lparr>APOGEE_ID = ''2M00000211+6327470'', TEFF = Some (Num 4600), LOGG = Some (Num 2.4), FE_H = Some (Num 0.1)\<rparr>,
      \<lparr>APOGEE_ID = ''2M00000222+5625359'', TEFF = Some (Num 4100), LOGG = Some (Num 1.5), FE_H = Some (Num (- 0.4))\<rparr>,
      \<lparr>APOGEE_ID = ''2M00000233+1452324'', TEFF = Some (Num 4900), LOGG = Some (Num 4.6), FE_H = Some (Num 0.2)\<rparr>,
      \<lparr>APOGEE_ID = ''2M00000317+5821383'', TEFF = Some (Num 4500), LOGG = Some (Num 2.2), FE_H = Some (Num (- 0.25))\<rparr>]"

definition ex_world :: world where
  "ex_world = \<lparr>files = Map.empty, stdout = [], shown = []\<rparr>"

definition ex_aspcap_unknown :: aspcap_file where
  "ex_aspcap_unknown =
     ex_aspcap\<lparr>hdu4_data := [\<lparr>spec_APOGEE_ID = ''VESTA'',
                     FPARAM = [Num 5700, Num 4.4, Num 1, Num 0, Num 0, Num 0, Num 0]\<rparr>]\<rparr>"


definition ex_archive :: "string archive" where
  "ex_archive =
     \<lparr>query_criteria_apogee =
        (\<lambda>target_name. Inr [\<lparr>obs_id = ''sdss_apogee_'' @ target_name, s_ra = 174, s_dec = 81, distance = Num 0\<rparr>]),
      query_criteria_tess = (\<lambda>ra dec. Inr []),
      get_product_list = (\<lambda>obs. Inr (map obs_id obs)),
      download_products = (\<lambda>products flt. Inr (map (\<lambda>p. ''mastDownload/'' @ p) products)),
      fits_open_aspcap = (\<lambda>path. Inr ex_aspcap),
      fits_open_tess = (\<lambda>path. Inr ex_tess)\<rparr>"

definition ex_archive_no_obs :: "string archive" where
  "ex_archive_no_obs = ex_archive\<lparr>query_criteria_apogee := (\<lambda>target_name. Inr [])\<rparr>"

definition ex_archive_gap :: "string archive" where
  "ex_archive_gap =
     ex_archive\<lparr>query_criteria_tess :=
       (\<lambda>ra dec. if ra = 174 \<and> dec = 81 then Inr [] else Inr ex_tess_obs)\<rparr>"


section \<open>Properties of the closest match\<close>

lemma argmin_loop_spec:
  assumes "\<forall>x \<in> set xs. \<not> isnan x" and "mp = Num m"
    and "best < i"
  shows "\<exists>k. argmin_loop xs i mp best = k \<and>
           ((k = best \<and> (\<forall>x \<in> set xs. m \<le> num_of x)) \<or>
            (i \<le> k \<and> k < i + length xs \<and> num_of (xs ! (k - i)) < m \<and>
             (\<forall>j < length xs. num_of (xs ! (k - i)) \<le> num_of (xs ! j)) \<and>
             (\<forall>j < k - i. num_of (xs ! (k - i)) < num_of (xs ! j))))"
  using assms
proof (induction xs arbitrary: i mp m best)
  case Nil
  then show ?case by simp
next
  case (Cons x xs)
  from Cons.prems(1) obtain r where x: "x = Num r" by (cases x) auto
  have rest: "\<forall>y \<in> set xs. \<not> isnan y" using Cons.prems(1) by simp
  show ?case
  proof (cases "r < m")
    case True
    from Cons.IH [OF rest x, of i "Suc i"]
    obtain k where k: "argmin_loop xs (Suc i) x i = k"
      and d: "(k = i \<and> (\<forall>y \<in> set xs. r \<le> num_of y)) \<or>
            (Suc i \<le> k \<and> k < Suc i + length xs \<and> num_of (xs ! (k - Suc i)) < r \<and>
             (\<forall>j < length xs. num_of (xs ! (k - Suc i)) \<le> num_of (xs ! j)) \<and>
             (\<forall>j < k - Suc i. num_of (xs ! (k - Suc i)) < num_of (xs ! j)))"
      by auto
    have step: "argmin_loop (x # xs) i mp best = k"
      using True k x Cons.prems(2) by simp
    from d show ?thesis
    proof
      assume a: "k = i \<and> (\<forall>y \<in> set xs. r \<le> num_of y)"
      have "\<forall>j < length (x # xs). num_of ((x # xs) ! 0) \<le> num_of ((x # xs) ! j)"
      proof (intro allI impI)
        fix j assume "j < length (x # xs)"
        then show "num_of ((x # xs) ! 0) \<le> num_of ((x # xs) ! j)"
          using a x by (cases j) auto
      qed
      then show ?thesis using step a x True by auto
    next
      assume b: "Suc i \<le> k \<and> k < Suc i + length xs \<and> num_of (xs ! (k - Suc i)) < r \<and>
             (\<forall>j < length xs. num_of (xs ! (k - Suc i)) \<le> num_of (xs ! j)) \<and>
             (\<forall>j < k - Suc i. num_of (xs ! (k - Suc i)) < num_of (xs ! j))"
      then have ki: "k - i = Suc (k - Suc i)" by arith
      have le: "\<forall>j < length (x # xs). num_of ((x # xs) ! (k - i)) \<le> num_of ((x # xs) ! j)"
      proof (intro allI impI)
        fix j assume "j < length (x # xs)"
        then show "num_of ((x # xs) ! (k - i)) \<le> num_of ((x # xs) ! j)"
          using b x ki by (cases j) auto
      qed
      have lt: "\<forall>j < k - i. num_of ((x # xs) ! (k - i)) < num_of ((x # xs) ! j)"
      proof (intro allI impI)
        fix j assume "j < k - i"
        then show "num_of ((x # xs) ! (k - i)) < num_of ((x # xs) ! j)"
          using b x ki by (cases j) auto
      qed
      have "num_of ((x # xs) ! (k - i)) < m" using b ki True by simp
      moreover have "i \<le> k \<and> k < i + length (x # xs)" using b by simp
      ultimately show ?thesis using step le lt by blast
    qed
  next
    case False
    from Cons.IH [OF rest Cons.prems(2), of best "Suc i"] Cons.prems(3)
    obtain k where k: "argmin_loop xs (Suc i) mp best = k"
      and d: "(k = best \<and> (\<forall>y \<in> set xs. m \<le> num_of y)) \<or>
            (Suc i \<le> k \<and> k < Suc i + length xs \<and> num_of (xs ! (k - Suc i)) < m \<and>
             (\<forall>j < length xs. num_of (xs ! (k - Suc i)) \<le> num_of (xs ! j)) \<and>
             (\<forall>j < k - Suc i. num_of (xs ! (k - Suc i)) < num_of (xs ! j)))"
      by auto
    have step: "argmin_loop (x # xs) i mp best = k"
      using False k x Cons.prems(2) by simp
    from d show ?thesis
    proof
      assume a: "k = best \<and> (\<forall>y \<in> set xs. m \<le> num_of y)"
      then show ?thesis using step x False by auto
    next
      assume b: "Suc i \<le> k \<and> k < Suc i + length xs \<and> num_of (xs ! (k - Suc i)) < m \<and>
             (\<forall>j < length xs. num_of (xs ! (k - Suc i)) \<le> num_of (xs ! j)) \<and>
             (\<forall>j < k - Suc i. num_of (xs ! (k - Suc i)) < num_of (xs ! j))"
      then have ki: "k - i = Suc (k - Suc i)" by arith
      have le: "\<forall>j < length (x # xs). num_of ((x # xs) ! (k - i)) \<le> num_of ((x # xs) ! j)"
      proof (intro allI impI)
        fix j assume "j < length (x # xs)"
        then show "num_of ((x # xs) ! (k - i)) \<le> num_of ((x # xs) ! j)"
          using b x ki False by (cases j) auto
      qed
      have lt: "\<forall>j < k - i. num_of ((x # xs) ! (k - i)) < num_of ((x # xs) ! j)"
      proof (intro allI impI)
        fix j assume "j < k - i"
        then show "num_of ((x # xs) ! (k - i)) < num_of ((x # xs) ! j)"
          using b x ki False by (cases j) auto
      qed
      have "num_of ((x # xs) ! (k - i)) < m" using b ki by simp
      moreover have "i \<le> k \<and> k < i + length (x # xs)" using b by simp
      ultimately show ?thesis using step le lt by blast
    qed
  qed
qed

lemma np_argmin_first_minimum:
  assumes "a \<noteq> []" and "\<forall>x \<in> set a. \<not> isnan x"
  shows "\<exists>k < length a. np_argmin a = Inr k \<and>
           (\<forall>j < length a. num_of (a ! k) \<le> num_of (a ! j)) \<and>
           (\<forall>j < k. num_of (a ! k) < num_of (a ! j))"
proof -
  from assms(1) obtain x xs where a: "a = x # xs" by (cases a) auto
  from assms(2) a obtain m where x: "x = Num m" by (cases x) auto
  have rest: "\<forall>y \<in> set xs. \<not> isnan y" using assms(2) a by simp
  from argmin_loop_spec [OF rest x, of 0 1]
  obtain k where k: "argmin_loop xs 1 x 0 = k"
    and d: "(k = 0 \<and> (\<forall>y \<in> set xs. m \<le> num_of y)) \<or>
            (1 \<le> k \<and> k < 1 + length xs \<and> num_of (xs ! (k - 1)) < m \<and>
             (\<forall>j < length xs. num_of (xs ! (k - 1)) \<le> num_of (xs ! j)) \<and>
             (\<forall>j < k - 1. num_of (xs ! (k - 1)) < num_of (xs ! j)))"
    by auto
  have r: "np_argmin a = Inr k" using k a by (simp add: np_argmin_def)
  from d show ?thesis
  proof
    assume c: "k = 0 \<and> (\<forall>y \<in> set xs. m \<le> num_of y)"
    have "\<forall>j < length a. num_of (a ! 0) \<le> num_of (a ! j)"
    proof (intro allI impI)
      fix j assume "j < length a"
      then show "num_of (a ! 0) \<le> num_of (a ! j)" using c a x by (cases j) auto
    qed
    then show ?thesis using r c a by auto
  next
    assume c: "1 \<le> k \<and> k < 1 + length xs \<and> num_of (xs ! (k - 1)) < m \<and>
             (\<forall>j < length xs. num_of (xs ! (k - 1)) \<le> num_of (xs ! j)) \<and>
             (\<forall>j < k - 1. num_of (xs ! (k - 1)) < num_of (xs ! j))"
    then obtain k' where k': "k = Suc k'" by (cases k) auto
    have le: "\<forall>j < length a. num_of (a ! k) \<le> num_of (a ! j)"
    proof (intro allI impI)
      fix j assume "j < length a"
      then show "num_of (a ! k) \<le> num_of (a ! j)" using c a x k' by (cases j) auto
    qed
    have lt: "\<forall>j < k. num_of (a ! k) < num_of (a ! j)"
    proof (intro allI impI)
      fix j assume "j < k"
      then show "num_of (a ! k) < num_of (a ! j)" using c a x k' by (cases j) auto
    qed
    have "k < length a" using c a by simp
    then show ?thesis using r le lt by blast
  qed
qed

lemma fl_ge_num: "\<not> isnan a \<Longrightarrow> \<not> isnan b \<Longrightarrow> fl_ge a b = (num_of b \<le> num_of a)"
  by (cases a; cases b) auto

lemma fl_less_num: "\<not> isnan a \<Longrightarrow> \<not> isnan b \<Longrightarrow> fl_less a b = (num_of a < num_of b)"
  by (cases a; cases b) auto

text \<open>
  C1. For every non-empty list of candidate time-series observations whose distance
  values are all defined, the closest-match selection returns a record of the list whose
  distance is minimal, and among the records that tie at the minimum (distance 0
  included) it returns the first in input order: every earlier record has a strictly
  greater distance.
\<close>

theorem closest_match_first_minimum:
  assumes "tess_obs \<noteq> []" and "\<forall>r \<in> set tess_obs. \<not> isnan (distance r)"
  shows "\<exists>k < length tess_obs.
           closest_match tess_obs = Inr (tess_obs ! k) \<and>
           (\<forall>j < length tess_obs. fl_ge (distance (tess_obs ! j)) (distance (tess_obs ! k))) \<and>
           (\<forall>j < k. fl_less (distance (tess_obs ! k)) (distance (tess_obs ! j)))"
proof -
  let ?a = "map distance tess_obs"
  have ne: "?a \<noteq> []" using assms(1) by simp
  have nn: "\<forall>x \<in> set ?a. \<not> isnan x" using assms(2) by simp
  from np_argmin_first_minimum [OF ne nn]
  obtain k where k: "k < length tess_obs" and r: "np_argmin ?a = Inr k"
    and le: "\<forall>j < length tess_obs. num_of (?a ! k) \<le> num_of (?a ! j)"
    and lt: "\<forall>j < k. num_of (?a ! k) < num_of (?a ! j)"
    by auto
  have def: "\<And>j. j < length tess_obs \<Longrightarrow> \<not> isnan (distance (tess_obs ! j))"
    using assms(2) by simp
  have 1: "closest_match tess_obs = Inr (tess_obs ! k)"
    using r by (simp add: closest_match_def)
  have 2: "\<forall>j < length tess_obs. fl_ge (distance (tess_obs ! j)) (distance (tess_obs ! k))"
  proof (intro allI impI)
    fix j assume j: "j < length tess_obs"
    then have "num_of (?a ! k) \<le> num_of (?a ! j)" using le by blast
    then show "fl_ge (distance (tess_obs ! j)) (distance (tess_obs ! k))"
      using j k def by (simp add: fl_ge_num)
  qed
  have 3: "\<forall>j < k. fl_less (distance (tess_obs ! k)) (distance (tess_obs ! j))"
  proof (intro allI impI)
    fix j assume j: "j < k"
    then have "num_of (?a ! k) < num_of (?a ! j)" using lt by blast
    then show "fl_less (distance (tess_obs ! k)) (distance (tess_obs ! j))"
      using j k def by (simp add: fl_less_num)
  qed
  from k 1 2 3 show ?thesis by blast
qed

theorem closest_match_first_minimum_witness:
  "ex_tess_obs \<noteq> [] \<and> NaN \<notin> set (map distance ex_tess_obs) \<and>
   closest_match ex_tess_obs = Inr (ex_tess_obs ! 1) \<and>
   (\<exists>k < length ex_tess_obs.
           closest_match ex_tess_obs = Inr (ex_tess_obs ! k) \<and>
           (\<forall>j < length ex_tess_obs. fl_ge (distance (ex_tess_obs ! j)) (distance (ex_tess_obs ! k))) \<and>
           (\<forall>j < k. fl_less (distance (ex_tess_obs ! k)) (distance (ex_tess_obs ! j))))"
proof -
  have h1: "ex_tess_obs \<noteq> []" by (simp add: ex_tess_obs_def)
  have h2: "\<forall>r \<in> set ex_tess_obs. \<not> isnan (distance r)" by (simp add: ex_tess_obs_def)
  have v: "closest_match ex_tess_obs = Inr (ex_tess_obs ! 1)"
    by (simp add: ex_tess_obs_def closest_match_def np_argmin_def)
  have h3: "NaN \<notin> set (map distance ex_tess_obs)" by (simp add: ex_tess_obs_def)
  from closest_match_first_minimum [OF h1 h2] h1 h3 v show ?thesis by blast
qed

section \<open>Properties of the wavelength axis\<close>




















section \<open>Properties of the spectrum panel\<close>

lemma mask_index_nth:
  assumes "length msk = length a"
  shows "mask_index a msk = Inr (map ((!) a) (filter (\<lambda>i. msk ! i) [0..<length a]))"
proof -
  have "zip a msk = zip (map ((!) a) [0..<length a]) (map ((!) msk) [0..<length a])"
    using assms by (simp add: map_nth) (metis map_nth)
  also have "\<dots> = map (\<lambda>i. (a ! i, msk ! i)) [0..<length a]"
    by (simp add: zip_map_map zip_same_conv_map)
  finally have z: "zip a msk = map (\<lambda>i. (a ! i, msk ! i)) [0..<length a]" .
  have "map fst (filter snd (zip a msk)) = map ((!) a) (filter (\<lambda>i. msk ! i) [0..<length a])"
    by (simp add: z filter_map o_def)
  then show ?thesis using assms by (simp add: mask_index_def)
qed

lemma pixel_mask_index:
  assumes "length a = length (hdu2_data apogee_spec)"
  shows "mask_index a (pixel_mask_of apogee_spec) = Inr (map ((!) a) (kept_pixels (hdu2_data apogee_spec)))"
proof -
  let ?err = "hdu2_data apogee_spec"
  have len: "length (pixel_mask_of apogee_spec) = length a"
    using assms by (simp add: pixel_mask_of_def)
  have "filter (\<lambda>i. pixel_mask_of apogee_spec ! i) [0..<length a] = kept_pixels ?err"
    unfolding kept_pixels_def pixel_mask_of_def using assms
    by (intro filter_cong) (auto simp add: assms)
  then show ?thesis using mask_index_nth [OF len] by simp
qed

lemma kept_pixels_set:
  "set (kept_pixels err) = {i. i < length err \<and> fl_less (err ! i) (Num 0.1)}"
  by (auto simp add: kept_pixels_def)

lemma kept_pixels_length:
  "length (kept_pixels err) = card {i. i < length err \<and> fl_less (err ! i) (Num 0.1)}"
proof -
  have "distinct (kept_pixels err)" by (simp add: kept_pixels_def)
  then have "card (set (kept_pixels err)) = length (kept_pixels err)" by (rule distinct_card)
  then show ?thesis by (simp only: kept_pixels_set)
qed

text \<open>
  C3. For every uncertainty array (with the wavelength array and the observed and model
  flux of the same length, as the data model has it), the spectrum panel plots exactly the
  pixels whose uncertainty is strictly below 0.1: both plotted series are the values at
  those indices, in order, nothing else; their length is the number of such pixels, so no
  pixel at or above the threshold is plotted and none is filled in.
\<close>

theorem spectrum_panel_mask:
  assumes "length apogee_wls = length (hdu2_data apogee_spec)"
    and "length (hdu1_data apogee_spec) = length (hdu2_data apogee_spec)"
    and "length (hdu3_data apogee_spec) = length (hdu2_data apogee_spec)"
    and "apogee_wls \<noteq> []" and "hdu4_data apogee_spec \<noteq> []"
  shows "\<exists>a2 obs mdl.
           spectrum_panel apogee_wls apogee_spec = Inr a2 \<and> ax2_lines a2 = [obs, mdl] \<and>
           ln_x obs = map ((!) apogee_wls) (kept_pixels (hdu2_data apogee_spec)) \<and>
           ln_y obs = map ((!) (hdu1_data apogee_spec)) (kept_pixels (hdu2_data apogee_spec)) \<and>
           ln_x mdl = map ((!) apogee_wls) (kept_pixels (hdu2_data apogee_spec)) \<and>
           ln_y mdl = map ((!) (hdu3_data apogee_spec)) (kept_pixels (hdu2_data apogee_spec)) \<and>
           set (kept_pixels (hdu2_data apogee_spec)) =
             {i. i < length (hdu2_data apogee_spec) \<and> fl_less (hdu2_data apogee_spec ! i) (Num 0.1)} \<and>
           length (ln_y obs) =
             card {i. i < length (hdu2_data apogee_spec) \<and> fl_less (hdu2_data apogee_spec ! i) (Num 0.1)} \<and>
           length (ln_y mdl) =
             card {i. i < length (hdu2_data apogee_spec) \<and> fl_less (hdu2_data apogee_spec ! i) (Num 0.1)}"
proof -
  let ?keep = "kept_pixels (hdu2_data apogee_spec)"
  have w: "mask_index apogee_wls (pixel_mask_of apogee_spec) = Inr (map ((!) apogee_wls) ?keep)"
    by (rule pixel_mask_index [OF assms(1)])
  have ob: "mask_index (hdu1_data apogee_spec) (pixel_mask_of apogee_spec)
              = Inr (map ((!) (hdu1_data apogee_spec)) ?keep)"
    by (rule pixel_mask_index [OF assms(2)])
  have md: "mask_index (hdu3_data apogee_spec) (pixel_mask_of apogee_spec)
              = Inr (map ((!) (hdu3_data apogee_spec)) ?keep)"
    by (rule pixel_mask_index [OF assms(3)])
  obtain lo where lo: "np_min apogee_wls = Inr lo"
    using assms(4) by (cases apogee_wls) (simp_all add: np_min_def)
  obtain hi where hi: "np_max apogee_wls = Inr hi"
    using assms(4) by (cases apogee_wls) (simp_all add: np_max_def)
  obtain sid where sid: "item (map spec_APOGEE_ID (hdu4_data apogee_spec)) 0 = Inr sid"
    using assms(5) by (simp add: item_def)
  let ?obs = "\<lparr>ln_x = map ((!) apogee_wls) ?keep, ln_y = map ((!) (hdu1_data apogee_spec)) ?keep,
               ln_c = ''k'', ln_label = ''Observed Spectrum''\<rparr>"
  let ?mdl = "\<lparr>ln_x = map ((!) apogee_wls) ?keep, ln_y = map ((!) (hdu3_data apogee_spec)) ?keep,
               ln_c = ''darkred'', ln_label = ''Best Fit Model Spectrum''\<rparr>"
  have r: "spectrum_panel apogee_wls apogee_spec =
             Inr \<lparr>ax2_lines = [?obs, ?mdl], ax2_xlim = (lo, hi), ax2_title = ''APOGEE Spectrum - '' @ sid\<rparr>"
    by (simp add: spectrum_panel_def Let_def w ob md lo hi sid)
  show ?thesis
    apply (rule exI [of _ "\<lparr>ax2_lines = [?obs, ?mdl], ax2_xlim = (lo, hi), ax2_title = ''APOGEE Spectrum - '' @ sid\<rparr>"])
    apply (rule exI [of _ ?obs])
    apply (rule exI [of _ ?mdl])
    apply (simp add: r kept_pixels_length kept_pixels_set)
    done
qed

lemma ex_kept: "kept_pixels (hdu2_data ex_aspcap) = [0, 3]"
  by (simp add: kept_pixels_def ex_aspcap_def upt_rec)

theorem spectrum_panel_mask_witness:
  "length ex_wls = length (hdu2_data ex_aspcap) \<and>
   length (hdu1_data ex_aspcap) = length (hdu2_data ex_aspcap) \<and>
   length (hdu3_data ex_aspcap) = length (hdu2_data ex_aspcap) \<and>
   ex_wls \<noteq> [] \<and> hdu4_data ex_aspcap \<noteq> [] \<and>
   (\<exists>a2 obs mdl.
      spectrum_panel ex_wls ex_aspcap = Inr a2 \<and> ax2_lines a2 = [obs, mdl] \<and>
      ln_x obs = [15101, 15104] \<and> ln_y obs = [Num 1, Num 0.7] \<and>
      ln_x mdl = [15101, 15104] \<and> ln_y mdl = [Num 0.99, Num 0.71])"
proof -
  have h1: "length ex_wls = length (hdu2_data ex_aspcap)" by (simp add: ex_wls_def ex_aspcap_def)
  have h2: "length (hdu1_data ex_aspcap) = length (hdu2_data ex_aspcap)" by (simp add: ex_aspcap_def)
  have h3: "length (hdu3_data ex_aspcap) = length (hdu2_data ex_aspcap)" by (simp add: ex_aspcap_def)
  have h4: "ex_wls \<noteq> []" by (simp add: ex_wls_def)
  have h5: "hdu4_data ex_aspcap \<noteq> []" by (simp add: ex_aspcap_def)
  have v: "map ((!) ex_wls) [0, 3] = [15101, 15104]"
    "map ((!) (hdu1_data ex_aspcap)) [0, 3] = [Num 1, Num 0.7]"
    "map ((!) (hdu3_data ex_aspcap)) [0, 3] = [Num 0.99, Num 0.71]"
    by (simp_all add: ex_wls_def ex_aspcap_def)
  from spectrum_panel_mask [OF h1 h2 h3 h4 h5]
  obtain a2 obs mdl where
    "spectrum_panel ex_wls ex_aspcap = Inr a2" "ax2_lines a2 = [obs, mdl]"
    "ln_x obs = map ((!) ex_wls) (kept_pixels (hdu2_data ex_aspcap))"
    "ln_y obs = map ((!) (hdu1_data ex_aspcap)) (kept_pixels (hdu2_data ex_aspcap))"
    "ln_x mdl = map ((!) ex_wls) (kept_pixels (hdu2_data ex_aspcap))"
    "ln_y mdl = map ((!) (hdu3_data ex_aspcap)) (kept_pixels (hdu2_data ex_aspcap))"
    by blast
  then have "spectrum_panel ex_wls ex_aspcap = Inr a2 \<and> ax2_lines a2 = [obs, mdl] \<and>
      ln_x obs = [15101, 15104] \<and> ln_y obs = [Num 1, Num 0.7] \<and>
      ln_x mdl = [15101, 15104] \<and> ln_y mdl = [Num 0.99, Num 0.71]"
    by (simp only: ex_kept v)
  then show ?thesis using h1 h2 h3 h4 h5 by blast
qed

section \<open>Properties of the light-curve panel\<close>

lemma defined_of_filter: "defined_of (filter (\<lambda>t. \<not> isnan t) time) = defined_of time"
  by (simp add: defined_of_def)

lemma defined_of_nonempty:
  assumes "\<exists>t \<in> set time. \<not> isnan t"
  shows "defined_of time \<noteq> []"
  using assms by (auto simp add: defined_of_def filter_empty_conv)

lemma np_nanmin_defined:
  assumes "\<exists>t \<in> set time. \<not> isnan t"
  shows "np_nanmin time = Inr (Num (Min (set (defined_of time))))"
proof -
  from defined_of_nonempty [OF assms] obtain x xs where d: "defined_of time = x # xs"
    by (cases "defined_of time") auto
  have "time \<noteq> []" using assms by auto
  moreover have "fold min xs x = Min (set (x # xs))" by (simp only: Min.set_eq_fold)
  ultimately show ?thesis by (simp add: np_nanmin_def d del: set_simps)
qed

lemma np_nanmax_defined:
  assumes "\<exists>t \<in> set time. \<not> isnan t"
  shows "np_nanmax time = Inr (Num (Max (set (defined_of time))))"
proof -
  from defined_of_nonempty [OF assms] obtain x xs where d: "defined_of time = x # xs"
    by (cases "defined_of time") auto
  have "time \<noteq> []" using assms by auto
  moreover have "fold max xs x = Max (set (x # xs))" by (simp only: Max.set_eq_fold)
  ultimately show ?thesis by (simp add: np_nanmax_def d del: set_simps)
qed

lemma day_lines_defined:
  assumes "\<exists>t \<in> set time. \<not> isnan t"
  shows "\<exists>a b. py_int (Num (Min (set (defined_of time)))) = Inr a \<and>
               py_int (Num (Max (set (defined_of time)))) = Inr b \<and>
               day_lines time = Inr (py_range a b)"
  by (simp add: day_lines_def np_nanmin_defined [OF assms] np_nanmax_defined [OF assms])

lemma day_lines_filter:
  assumes "\<exists>t \<in> set time. \<not> isnan t"
  shows "day_lines (filter (\<lambda>t. \<not> isnan t) time) = day_lines time"
proof -
  have f: "\<exists>t \<in> set (filter (\<lambda>t. \<not> isnan t) time). \<not> isnan t" using assms by auto
  show ?thesis
    by (simp add: day_lines_def np_nanmin_defined [OF assms] np_nanmax_defined [OF assms]
        np_nanmin_defined [OF f] np_nanmax_defined [OF f] defined_of_filter)
qed

text \<open>
  C7. For every light curve whose time array has at least one defined sample (and any
  number of NaN samples), the light-curve panel is built, and the day gridlines run from
  the truncated minimum to the truncated maximum of the defined samples only: they are the
  gridlines of the light curve with the NaN samples removed.
\<close>

theorem lc_panel_gridlines_ignore_nan:
  assumes "\<exists>r \<in> set (LIGHTCURVE tess_lightcurve). \<not> isnan (TIME r)"
  shows "\<exists>a3 a3' a b.
           lc_panel tess_lightcurve = Inr a3 \<and>
           py_int (Num (Min (set (defined_of (map TIME (LIGHTCURVE tess_lightcurve)))))) = Inr a \<and>
           py_int (Num (Max (set (defined_of (map TIME (LIGHTCURVE tess_lightcurve)))))) = Inr b \<and>
           ax3_vlines a3 = py_range a b \<and>
           lc_panel (tess_lightcurve\<lparr>LIGHTCURVE :=
                       filter (\<lambda>r. \<not> isnan (TIME r)) (LIGHTCURVE tess_lightcurve)\<rparr>) = Inr a3' \<and>
           ax3_vlines a3' = ax3_vlines a3"
proof -
  let ?time = "map TIME (LIGHTCURVE tess_lightcurve)"
  have ex: "\<exists>t \<in> set ?time. \<not> isnan t" using assms by auto
  from day_lines_defined [OF ex] obtain a b where
    a: "py_int (Num (Min (set (defined_of ?time)))) = Inr a" and
    b: "py_int (Num (Max (set (defined_of ?time)))) = Inr b" and
    d: "day_lines ?time = Inr (py_range a b)" by blast
  have tf: "map TIME (filter (\<lambda>r. \<not> isnan (TIME r)) (LIGHTCURVE tess_lightcurve))
              = filter (\<lambda>t. \<not> isnan t) ?time"
    by (simp add: filter_map o_def)
  have d': "day_lines (filter (\<lambda>t. \<not> isnan t) ?time) = Inr (py_range a b)"
    using day_lines_filter [OF ex] d by simp
  show ?thesis
    using a b by (simp add: lc_panel_def Let_def d tf d')
qed

theorem lc_panel_gridlines_ignore_nan_witness:
  "(\<exists>r \<in> set (LIGHTCURVE ex_tess). \<not> isnan (TIME r)) \<and>
   (\<exists>a3. lc_panel ex_tess = Inr a3 \<and> ax3_vlines a3 = [1683, 1684])"
proof -
  have h: "\<exists>r \<in> set (LIGHTCURVE ex_tess). \<not> isnan (TIME r)" by (simp add: ex_tess_def)
  have d: "defined_of (map TIME (LIGHTCURVE ex_tess)) = [1683.4, 1684.2, 1685.9]"
    by (simp add: ex_tess_def defined_of_def)
  have r: "py_range 1683 1685 = [1683, 1684]"
    by (simp add: py_range_def upto.simps)
  from lc_panel_gridlines_ignore_nan [OF h] obtain a3 a b where
    p: "lc_panel ex_tess = Inr a3" and
    a: "py_int (Num (Min (set (defined_of (map TIME (LIGHTCURVE ex_tess)))))) = Inr a" and
    b: "py_int (Num (Max (set (defined_of (map TIME (LIGHTCURVE ex_tess)))))) = Inr b" and
    v: "ax3_vlines a3 = py_range a b" by blast
  have "a = 1683" using a by (simp add: d)
  moreover have "b = 1685" using b by (simp add: d)
  ultimately have "ax3_vlines a3 = [1683, 1684]" using v r by simp
  then show ?thesis using h p by blast
qed

section \<open>Properties of the composite figure\<close>

lemma np_where_eq_set: "set (np_where_eq col v) = {i. i < length col \<and> col ! i = v}"
  by (auto simp add: np_where_eq_def)

lemma np_where_eq_empty: "np_where_eq col v = [] \<longleftrightarrow> v \<notin> set col"
proof
  assume "np_where_eq col v = []"
  then have "{i. i < length col \<and> col ! i = v} = {}" using np_where_eq_set [of col v] by simp
  then show "v \<notin> set col" by (auto simp add: in_set_conv_nth)
next
  assume "v \<notin> set col"
  then have "set (np_where_eq col v) = {}" unfolding np_where_eq_set by auto
  then show "np_where_eq col v = []" by simp
qed

lemma where_first_total:
  "(\<exists>i. item (np_where_eq col v) 0 = Inr i) \<longleftrightarrow> v \<in> set col"
  using np_where_eq_empty [of col v] by (auto simp add: item_def)


lemma hr_panel_not_in_catalog:
  assumes "item (map spec_APOGEE_ID (hdu4_data apogee_spec)) 0 = Inr sid"
    and "sid \<notin> set (map APOGEE_ID allstar)"
  shows "hr_panel allstar apogee_spec = (Inl (IndexError ''index out of bounds''), [])"
proof -
  have "np_where_eq (map APOGEE_ID allstar) sid = []"
    using assms(2) by (simp only: np_where_eq_empty not_False_eq_True)
  then have "item (np_where_eq (map APOGEE_ID allstar) sid) 0 = Inl (IndexError ''index out of bounds'')"
    by (simp add: item_def)
  then show ?thesis using assms(1) by (simp add: hr_panel_def Let_def)
qed

text \<open>
  C10. For every spectrum whose identifier (the APOGEE_ID of the first row of its
  parameter table) does not occur in the catalog, the plot builder stops with an
  out-of-bounds IndexError and leaves the world as it was: no file is written, nothing is
  shown. The lookup of the target's catalog index succeeds exactly when the identifier
  occurs in the catalog.
\<close>

theorem plot_requires_star_in_catalog:
  assumes "item (map spec_APOGEE_ID (hdu4_data apogee_spec)) 0 = Inr sid"
  shows "(sid \<notin> set (map APOGEE_ID allstar) \<longrightarrow>
            plot_spectrum_and_lc allstar apogee_wls apogee_spec tess_lightcurve w
              = (Inl (IndexError ''index out of bounds''), w)) \<and>
         ((\<exists>indx. item (np_where_eq (map APOGEE_ID allstar) sid) 0 = Inr indx)
            \<longleftrightarrow> sid \<in> set (map APOGEE_ID allstar))"
proof
  show "sid \<notin> set (map APOGEE_ID allstar) \<longrightarrow>
            plot_spectrum_and_lc allstar apogee_wls apogee_spec tess_lightcurve w
              = (Inl (IndexError ''index out of bounds''), w)"
  proof
    assume "sid \<notin> set (map APOGEE_ID allstar)"
    from hr_panel_not_in_catalog [OF assms this]
    show "plot_spectrum_and_lc allstar apogee_wls apogee_spec tess_lightcurve w
              = (Inl (IndexError ''index out of bounds''), w)"
      by (simp add: plot_spectrum_and_lc_def)
  qed
next
  show "(\<exists>indx. item (np_where_eq (map APOGEE_ID allstar) sid) 0 = Inr indx)
            \<longleftrightarrow> sid \<in> set (map APOGEE_ID allstar)"
    by (rule where_first_total)
qed

lemma ex_unknown_sid: "item (map spec_APOGEE_ID (hdu4_data ex_aspcap_unknown)) 0 = Inr ''VESTA''"
  by (simp add: item_def ex_aspcap_unknown_def)

theorem plot_requires_star_in_catalog_witness:
  "item (map spec_APOGEE_ID (hdu4_data ex_aspcap_unknown)) 0 = Inr ''VESTA'' \<and>
   ''VESTA'' \<notin> set (map APOGEE_ID ex_allstar) \<and>
   plot_spectrum_and_lc ex_allstar ex_wls ex_aspcap_unknown ex_tess ex_world
     = (Inl (IndexError ''index out of bounds''), ex_world)"
proof -
  have n: "''VESTA'' \<notin> set (map APOGEE_ID ex_allstar)" by (simp add: ex_allstar_def)
  from plot_requires_star_in_catalog [OF ex_unknown_sid, of ex_allstar ex_wls ex_tess ex_world] n
  show ?thesis using ex_unknown_sid by blast
qed

lemma plot_success_elim:
  assumes "plot_spectrum_and_lc allstar apogee_wls apogee_spec tess_lightcurve w = (Inr (), w')"
  obtains a1 out a2 a3 sid where
    "hr_panel allstar apogee_spec = (Inr a1, out)"
    "spectrum_panel apogee_wls apogee_spec = Inr a2"
    "lc_panel tess_lightcurve = Inr a3"
    "item (map spec_APOGEE_ID (hdu4_data apogee_spec)) 0 = Inr sid"
    "w' = \<lparr>files = (files w)(save_name_of sid \<mapsto> \<lparr>ax1 = a1, ax2 = a2, ax3 = a3\<rparr>),
           stdout = stdout w @ out @ [''Saved to '' @ save_name_of sid],
           shown = shown w @ [\<lparr>ax1 = a1, ax2 = a2, ax3 = a3\<rparr>]\<rparr>"
  using assms
  by (auto simp add: plot_spectrum_and_lc_def Let_def py_print_def
      split: prod.splits sum.splits)

lemma plot_success_intro:
  assumes "hr_panel allstar apogee_spec = (Inr a1, out)"
    and "spectrum_panel apogee_wls apogee_spec = Inr a2"
    and "lc_panel tess_lightcurve = Inr a3"
    and "item (map spec_APOGEE_ID (hdu4_data apogee_spec)) 0 = Inr sid"
  shows "plot_spectrum_and_lc allstar apogee_wls apogee_spec tess_lightcurve w =
           (Inr (), \<lparr>files = (files w)(save_name_of sid \<mapsto> \<lparr>ax1 = a1, ax2 = a2, ax3 = a3\<rparr>),
              stdout = stdout w @ out @ [''Saved to '' @ save_name_of sid],
              shown = shown w @ [\<lparr>ax1 = a1, ax2 = a2, ax3 = a3\<rparr>]\<rparr>)"
  using assms
  by (simp add: plot_spectrum_and_lc_def Let_def py_print_def)

lemma hr_panel_title:
  assumes "hr_panel allstar apogee_spec = (Inr a1, out)"
  shows "ax1_title a1 = hr_title"
  using assms
  by (auto simp add: hr_panel_def Let_def split: sum.splits if_splits)

lemma spectrum_panel_title:
  assumes "spectrum_panel apogee_wls apogee_spec = Inr a2"
    and "item (map spec_APOGEE_ID (hdu4_data apogee_spec)) 0 = Inr sid"
  shows "ax2_title a2 = ''APOGEE Spectrum - '' @ sid"
  using assms
  by (auto simp add: spectrum_panel_def Let_def split: sum.splits)

lemma lc_panel_title:
  assumes "lc_panel tess_lightcurve = Inr a3"
  shows "ax3_title a3 = ''TESS-SPOC Light Curve - '' @ hdu0_OBJECT tess_lightcurve"
  using assms
  by (auto simp add: lc_panel_def Let_def split: sum.splits)

lemma ex_sid: "item (map spec_APOGEE_ID (hdu4_data ex_aspcap)) 0 = Inr ''V1154_Cyg''"
  by (simp add: item_def ex_aspcap_def)

lemma ex_where: "np_where_eq (map APOGEE_ID ex_allstar) ''V1154_Cyg'' = [3]"
  by (simp add: np_where_eq_def ex_allstar_def upt_rec)


lemma ex_hr_panel:
  "hr_panel ex_allstar ex_aspcap =
     (Inr \<lparr>ax1_scatters =
             [catalog_scatter ex_allstar,
              star_marker (Some (Num 5800)) (Some (Num 1.6)) (Some (Num (- 0.1)))],
           ax1_title = hr_title\<rparr>, [])"
proof -
  have i: "item (np_where_eq (map APOGEE_ID ex_allstar) ''V1154_Cyg'') 0 = Inr 3"
    by (simp add: ex_where item_def)
  have t: "map TEFF ex_allstar ! 3 = Some (Num 5800)" "map LOGG ex_allstar ! 3 = Some (Num 1.6)"
    "map FE_H ex_allstar ! 3 = Some (Num (- 0.1))"
    by (simp_all add: ex_allstar_def)
  show ?thesis
    by (simp add: hr_panel_def Let_def ex_sid i t)
qed

lemma ex_spectrum_panel:
  "spectrum_panel ex_wls ex_aspcap =
     Inr \<lparr>ax2_lines =
            [\<lparr>ln_x = [15101, 15104], ln_y = [Num 1, Num 0.7], ln_c = ''k'', ln_label = ''Observed Spectrum''\<rparr>,
             \<lparr>ln_x = [15101, 15104], ln_y = [Num 0.99, Num 0.71], ln_c = ''darkred'',
               ln_label = ''Best Fit Model Spectrum''\<rparr>],
          ax2_xlim = (15101, 15104),
          ax2_title = ''APOGEE Spectrum - V1154_Cyg''\<rparr>"
proof -
  have m: "pixel_mask_of ex_aspcap = [True, False, False, True]"
    by (simp add: pixel_mask_of_def ex_aspcap_def)
  have 1: "mask_index ex_wls [True, False, False, True] = Inr [15101, 15104]"
    by (simp add: mask_index_def ex_wls_def)
  have 2: "mask_index (hdu1_data ex_aspcap) [True, False, False, True] = Inr [Num 1, Num 0.7]"
    by (simp add: mask_index_def ex_aspcap_def)
  have 3: "mask_index (hdu3_data ex_aspcap) [True, False, False, True] = Inr [Num 0.99, Num 0.71]"
    by (simp add: mask_index_def ex_aspcap_def)
  have 4: "np_min ex_wls = Inr 15101" "np_max ex_wls = Inr 15104"
    by (simp_all add: np_min_def np_max_def ex_wls_def)
  show ?thesis
    by (simp add: spectrum_panel_def Let_def m 1 2 3 4 ex_sid)
qed

lemma ex_lc_panel:
  "lc_panel ex_tess =
     Inr \<lparr>ax3_lines =
            [\<lparr>ln_x = [NaN, Num 1683.4, Num 1684.2, NaN, Num 1685.9],
              ln_y = [Num 5, Num 100, NaN, NaN, Num 102], ln_c = ''k'', ln_label = ''TESS Light Curve''\<rparr>],
          ax3_vlines = [1683, 1684],
          ax3_title = ''TESS-SPOC Light Curve - TIC 272951532''\<rparr>"
proof -
  have d: "day_lines (map TIME (LIGHTCURVE ex_tess)) = Inr [1683, 1684]"
    by (simp add: ex_tess_def day_lines_def np_nanmin_def np_nanmax_def defined_of_def
        py_range_def upto.simps)
  have r: "lc_panel ex_tess =
     Inr \<lparr>ax3_lines =
            [\<lparr>ln_x = map TIME (LIGHTCURVE ex_tess), ln_y = map SAP_FLUX (LIGHTCURVE ex_tess),
              ln_c = ''k'', ln_label = ''TESS Light Curve''\<rparr>],
          ax3_vlines = [1683, 1684],
          ax3_title = ''TESS-SPOC Light Curve - '' @ hdu0_OBJECT ex_tess\<rparr>"
    by (simp add: lc_panel_def Let_def d)
  show ?thesis unfolding r by (simp add: ex_tess_def)
qed



lemma hr_panel_scatters:
  assumes "hr_panel allstar apogee_spec = (Inr a1, out)"
  shows "\<exists>t g m. ax1_scatters a1 = [catalog_scatter allstar, star_marker t g m]"
  using assms
  by (auto simp add: hr_panel_def Let_def split: sum.splits if_splits; blast)

lemma ex_plot:
  "plot_spectrum_and_lc ex_allstar ex_wls ex_aspcap ex_tess ex_world =
     (Inr (), snd (plot_spectrum_and_lc ex_allstar ex_wls ex_aspcap ex_tess ex_world))"
  using plot_success_intro [OF ex_hr_panel ex_spectrum_panel ex_lc_panel ex_sid, of ex_world]
  by simp

lemma ex_plot_files:
  "files (snd (plot_spectrum_and_lc ex_allstar ex_wls ex_aspcap ex_tess ex_world))
     ''V1154_Cyg_APOGEE_spec_TESS_lightcurve.png'' =
   Some \<lparr>ax1 = \<lparr>ax1_scatters =
             [catalog_scatter ex_allstar,
              star_marker (Some (Num 5800)) (Some (Num 1.6)) (Some (Num (- 0.1)))],
           ax1_title = hr_title\<rparr>,
         ax2 = \<lparr>ax2_lines =
            [\<lparr>ln_x = [15101, 15104], ln_y = [Num 1, Num 0.7], ln_c = ''k'', ln_label = ''Observed Spectrum''\<rparr>,
             \<lparr>ln_x = [15101, 15104], ln_y = [Num 0.99, Num 0.71], ln_c = ''darkred'',
               ln_label = ''Best Fit Model Spectrum''\<rparr>],
          ax2_xlim = (15101, 15104),
          ax2_title = ''APOGEE Spectrum - V1154_Cyg''\<rparr>,
         ax3 = \<lparr>ax3_lines =
            [\<lparr>ln_x = [NaN, Num 1683.4, Num 1684.2, NaN, Num 1685.9],
              ln_y = [Num 5, Num 100, NaN, NaN, Num 102], ln_c = ''k'', ln_label = ''TESS Light Curve''\<rparr>],
          ax3_vlines = [1683, 1684],
          ax3_title = ''TESS-SPOC Light Curve - TIC 272951532''\<rparr>\<rparr>"
  using plot_success_intro [OF ex_hr_panel ex_spectrum_panel ex_lc_panel ex_sid, of ex_world]
  by (simp add: save_name_of_def)

text \<open>
  C8. For every run of the plot builder that succeeds, the figure is saved under the name
  \<open><identifier>_APOGEE_spec_TESS_lightcurve.png\<close>, where the identifier is the APOGEE_ID
  of the first row of the spectrum's parameter table; for the identifier V1154_Cyg the
  file is \<open>V1154_Cyg_APOGEE_spec_TESS_lightcurve.png\<close>.
\<close>

theorem artifact_filename:
  assumes "plot_spectrum_and_lc allstar apogee_wls apogee_spec tess_lightcurve w = (Inr (), w')"
  shows "\<exists>sid fig.
           item (map spec_APOGEE_ID (hdu4_data apogee_spec)) 0 = Inr sid \<and>
           files w' = (files w)(sid @ ''_APOGEE_spec_TESS_lightcurve.png'' \<mapsto> fig) \<and>
           (sid = ''V1154_Cyg'' \<longrightarrow>
              files w' ''V1154_Cyg_APOGEE_spec_TESS_lightcurve.png'' = Some fig)"
proof -
  from assms obtain a1 out a2 a3 sid where
    sid: "item (map spec_APOGEE_ID (hdu4_data apogee_spec)) 0 = Inr sid" and
    w': "w' = \<lparr>files = (files w)(save_name_of sid \<mapsto> \<lparr>ax1 = a1, ax2 = a2, ax3 = a3\<rparr>),
           stdout = stdout w @ out @ [''Saved to '' @ save_name_of sid],
           shown = shown w @ [\<lparr>ax1 = a1, ax2 = a2, ax3 = a3\<rparr>]\<rparr>"
    by (rule plot_success_elim)
  have "files w' = (files w)(sid @ ''_APOGEE_spec_TESS_lightcurve.png'' \<mapsto> \<lparr>ax1 = a1, ax2 = a2, ax3 = a3\<rparr>)"
    by (simp add: w' save_name_of_def)
  moreover have "sid = ''V1154_Cyg'' \<longrightarrow>
      files w' ''V1154_Cyg_APOGEE_spec_TESS_lightcurve.png'' = Some \<lparr>ax1 = a1, ax2 = a2, ax3 = a3\<rparr>"
    by (simp add: w' save_name_of_def)
  ultimately show ?thesis using sid by blast
qed

theorem artifact_filename_witness:
  "fst (plot_spectrum_and_lc ex_allstar ex_wls ex_aspcap ex_tess ex_world) = Inr () \<and>
   (\<exists>fig. files (snd (plot_spectrum_and_lc ex_allstar ex_wls ex_aspcap ex_tess ex_world))
            = Map.empty(''V1154_Cyg_APOGEE_spec_TESS_lightcurve.png'' \<mapsto> fig))"
proof -
  from artifact_filename [OF ex_plot] obtain sid fig where
    s: "item (map spec_APOGEE_ID (hdu4_data ex_aspcap)) 0 = Inr sid" and
    f: "files (snd (plot_spectrum_and_lc ex_allstar ex_wls ex_aspcap ex_tess ex_world))
          = (files ex_world)(sid @ ''_APOGEE_spec_TESS_lightcurve.png'' \<mapsto> fig)"
    by blast
  from s have "sid = ''V1154_Cyg''" by (simp add: ex_sid)
  with f have "files (snd (plot_spectrum_and_lc ex_allstar ex_wls ex_aspcap ex_tess ex_world))
          = Map.empty(''V1154_Cyg_APOGEE_spec_TESS_lightcurve.png'' \<mapsto> fig)"
    by (simp add: ex_world_def)
  moreover have "fst (plot_spectrum_and_lc ex_allstar ex_wls ex_aspcap ex_tess ex_world) = Inr ()"
    using ex_plot by (metis fst_conv)
  ultimately show ?thesis by blast
qed

text \<open>
  C9, as the claim states it, fails: in the figure saved for V1154_Cyg the title of the
  population panel is the fixed text, which does not contain the identifier, and the title
  of the light-curve panel carries the OBJECT keyword of the TESS file.
\<close>

theorem shared_title_identifier_counterexample:
  "map_option (ax1_title \<circ> ax1)
     (files (snd (plot_spectrum_and_lc ex_allstar ex_wls ex_aspcap ex_tess ex_world))
        ''V1154_Cyg_APOGEE_spec_TESS_lightcurve.png'')
     = Some ''APOGEE Stellar Parameters - allStar'' \<and>
   \<not> sublist ''V1154_Cyg'' ''APOGEE Stellar Parameters - allStar'' \<and>
   map_option (ax3_title \<circ> ax3)
     (files (snd (plot_spectrum_and_lc ex_allstar ex_wls ex_aspcap ex_tess ex_world))
        ''V1154_Cyg_APOGEE_spec_TESS_lightcurve.png'')
     = Some ''TESS-SPOC Light Curve - TIC 272951532'' \<and>
   \<not> sublist ''V1154_Cyg'' ''TESS-SPOC Light Curve - TIC 272951532''"
proof -
  have 1: "\<not> sublist ''V1154_Cyg'' ''APOGEE Stellar Parameters - allStar''"
    by code_simp
  have 2: "\<not> sublist ''V1154_Cyg'' ''TESS-SPOC Light Curve - TIC 272951532''"
    by code_simp
  show ?thesis using 1 2 by (simp add: ex_plot_files hr_title_def)
qed

text \<open>
  C9, amended. For every run of the plot builder that succeeds, the saved figure has the
  population panel titled with the fixed text \<open>APOGEE Stellar Parameters - allStar\<close>, the
  spectrum panel titled \<open>APOGEE Spectrum - <identifier>\<close> with the spectrum's APOGEE_ID,
  and the light-curve panel titled \<open>TESS-SPOC Light Curve - <OBJECT>\<close> with the OBJECT
  keyword of the TESS file.
\<close>

theorem panel_titles:
  assumes "plot_spectrum_and_lc allstar apogee_wls apogee_spec tess_lightcurve w = (Inr (), w')"
  shows "\<exists>sid fig.
           item (map spec_APOGEE_ID (hdu4_data apogee_spec)) 0 = Inr sid \<and>
           files w' (save_name_of sid) = Some fig \<and>
           ax1_title (ax1 fig) = ''APOGEE Stellar Parameters - allStar'' \<and>
           ax2_title (ax2 fig) = ''APOGEE Spectrum - '' @ sid \<and>
           ax3_title (ax3 fig) = ''TESS-SPOC Light Curve - '' @ hdu0_OBJECT tess_lightcurve"
proof -
  from assms obtain a1 out a2 a3 sid where
    h: "hr_panel allstar apogee_spec = (Inr a1, out)" and
    s: "spectrum_panel apogee_wls apogee_spec = Inr a2" and
    l: "lc_panel tess_lightcurve = Inr a3" and
    sid: "item (map spec_APOGEE_ID (hdu4_data apogee_spec)) 0 = Inr sid" and
    w': "w' = \<lparr>files = (files w)(save_name_of sid \<mapsto> \<lparr>ax1 = a1, ax2 = a2, ax3 = a3\<rparr>),
           stdout = stdout w @ out @ [''Saved to '' @ save_name_of sid],
           shown = shown w @ [\<lparr>ax1 = a1, ax2 = a2, ax3 = a3\<rparr>]\<rparr>"
    by (rule plot_success_elim)
  let ?fig = "\<lparr>ax1 = a1, ax2 = a2, ax3 = a3\<rparr>"
  have "files w' (save_name_of sid) = Some ?fig" by (simp add: w')
  moreover have "ax1_title (ax1 ?fig) = ''APOGEE Stellar Parameters - allStar''"
    using hr_panel_title [OF h] by (simp add: hr_title_def)
  moreover have "ax2_title (ax2 ?fig) = ''APOGEE Spectrum - '' @ sid"
    using spectrum_panel_title [OF s sid] by simp
  moreover have "ax3_title (ax3 ?fig) = ''TESS-SPOC Light Curve - '' @ hdu0_OBJECT tess_lightcurve"
    using lc_panel_title [OF l] by simp
  ultimately show ?thesis using sid by blast
qed

theorem panel_titles_witness:
  "fst (plot_spectrum_and_lc ex_allstar ex_wls ex_aspcap ex_tess ex_world) = Inr () \<and>
   (\<exists>fig. files (snd (plot_spectrum_and_lc ex_allstar ex_wls ex_aspcap ex_tess ex_world))
             ''V1154_Cyg_APOGEE_spec_TESS_lightcurve.png'' = Some fig \<and>
           ax1_title (ax1 fig) = ''APOGEE Stellar Parameters - allStar'' \<and>
           ax2_title (ax2 fig) = ''APOGEE Spectrum - V1154_Cyg'' \<and>
           ax3_title (ax3 fig) = ''TESS-SPOC Light Curve - TIC 272951532'')"
proof -
  from panel_titles [OF ex_plot] obtain sid fig where
    s: "item (map spec_APOGEE_ID (hdu4_data ex_aspcap)) 0 = Inr sid" and
    f: "files (snd (plot_spectrum_and_lc ex_allstar ex_wls ex_aspcap ex_tess ex_world))
          (save_name_of sid) = Some fig" and
    t: "ax1_title (ax1 fig) = ''APOGEE Stellar Parameters - allStar''"
       "ax2_title (ax2 fig) = ''APOGEE Spectrum - '' @ sid"
       "ax3_title (ax3 fig) = ''TESS-SPOC Light Curve - '' @ hdu0_OBJECT ex_tess"
    by blast
  from s have sid: "sid = ''V1154_Cyg''" by (simp add: ex_sid)
  have o: "hdu0_OBJECT ex_tess = ''TIC 272951532''" by (simp add: ex_tess_def)
  have "files (snd (plot_spectrum_and_lc ex_allstar ex_wls ex_aspcap ex_tess ex_world))
             ''V1154_Cyg_APOGEE_spec_TESS_lightcurve.png'' = Some fig"
    using f by (simp add: sid save_name_of_def)
  moreover have "ax2_title (ax2 fig) = ''APOGEE Spectrum - V1154_Cyg''"
    using t(2) by (simp add: sid)
  moreover have "ax3_title (ax3 fig) = ''TESS-SPOC Light Curve - TIC 272951532''"
    using t(3) by (simp add: o)
  moreover have "fst (plot_spectrum_and_lc ex_allstar ex_wls ex_aspcap ex_tess ex_world) = Inr ()"
    using ex_plot by (metis fst_conv)
  ultimately show ?thesis using t(1) by blast
qed











section \<open>Properties of \<open>plot_variable_star\<close>\<close>

lemma closest_match_empty:
  "closest_match [] = Inl (ValueError ''attempt to get argmin of an empty sequence'')"
  by (simp add: closest_match_def np_argmin_def)

lemma step_stops:
  assumes "files w1 = files w0" and "shown w1 = shown w0"
    and "\<And>x. r = Inr x \<Longrightarrow> \<exists>e w'. k x = (Inl e, w') \<and> files w' = files w0 \<and> shown w' = shown w0"
  shows "\<exists>e w'. step r w1 k = (Inl e, w') \<and> files w' = files w0 \<and> shown w' = shown w0"
  using assms by (cases r) (auto simp add: step_def)

lemma py_print_keeps: "files (py_print s w) = files w" "shown (py_print s w) = shown w"
  by (simp_all add: py_print_def)

lemma no_observation_stops:
  assumes "query_criteria_apogee ar apogee_id = Inr []"
  shows "\<exists>e w'. plot_variable_star ar allstar apogee_wls apogee_id w = (Inl e, w') \<and>
           files w' = files w \<and> shown w' = shown w"
  unfolding plot_variable_star_def Let_def
  apply (rule step_stops, simp add: py_print_keeps, simp add: py_print_keeps)
  apply (rule step_stops, simp add: py_print_keeps, simp add: py_print_keeps)
  apply (rule step_stops, simp add: py_print_keeps, simp add: py_print_keeps)
  apply (rule step_stops, simp add: py_print_keeps, simp add: py_print_keeps)
  apply (rule step_stops, simp add: py_print_keeps, simp add: py_print_keeps)
  apply (rule step_stops, simp add: py_print_keeps, simp add: py_print_keeps)
  apply (simp add: assms item_def)
  done

lemma no_time_series_stops:
  assumes "\<forall>ra dec. query_criteria_tess ar ra dec = Inr []"
  shows "\<exists>e w'. plot_variable_star ar allstar apogee_wls apogee_id w = (Inl e, w') \<and>
           files w' = files w \<and> shown w' = shown w"
  unfolding plot_variable_star_def Let_def
  apply (rule step_stops, simp add: py_print_keeps, simp add: py_print_keeps)
  apply (rule step_stops, simp add: py_print_keeps, simp add: py_print_keeps)
  apply (rule step_stops, simp add: py_print_keeps, simp add: py_print_keeps)
  apply (rule step_stops, simp add: py_print_keeps, simp add: py_print_keeps)
  apply (rule step_stops, simp add: py_print_keeps, simp add: py_print_keeps)
  apply (rule step_stops, simp add: py_print_keeps, simp add: py_print_keeps)
  apply (rule step_stops, simp add: py_print_keeps, simp add: py_print_keeps)
  apply (rule step_stops, simp add: py_print_keeps, simp add: py_print_keeps)
  apply (rule step_stops, simp add: py_print_keeps, simp add: py_print_keeps)
  apply (simp add: assms closest_match_empty)
  done

lemma no_time_series_error:
  assumes "query_criteria_apogee ar apogee_id = Inr obs" and "obs \<noteq> []"
    and "get_product_list ar obs = Inr products"
    and "download_products ar products (''productSubGroupDescription'', ''ASPCAPSTAR'') = Inr manifest"
    and "manifest \<noteq> []"
    and "fits_open_aspcap ar (manifest ! 0) = Inr aspcapstar"
    and "query_criteria_tess ar (s_ra (obs ! 0)) (s_dec (obs ! 0)) = Inr []"
  shows "fst (plot_variable_star ar allstar apogee_wls apogee_id w)
           = Inl (ValueError ''attempt to get argmin of an empty sequence'')"
  using assms
  by (simp add: plot_variable_star_def Let_def step_def item_def closest_match_empty)

lemma no_time_series_here_stops:
  assumes "query_criteria_apogee ar apogee_id = Inr obs"
    and "query_criteria_tess ar (s_ra (obs ! 0)) (s_dec (obs ! 0)) = Inr []"
  shows "\<exists>e w'. plot_variable_star ar allstar apogee_wls apogee_id w = (Inl e, w') \<and>
           files w' = files w \<and> shown w' = shown w"
  unfolding plot_variable_star_def Let_def
  apply (rule step_stops, simp add: py_print_keeps, simp add: py_print_keeps)
  apply (rule step_stops, simp add: py_print_keeps, simp add: py_print_keeps)
  apply (rule step_stops, simp add: py_print_keeps, simp add: py_print_keeps)
  apply (rule step_stops, simp add: py_print_keeps, simp add: py_print_keeps)
  apply (rule step_stops, simp add: py_print_keeps, simp add: py_print_keeps)
  apply (rule step_stops, simp add: py_print_keeps, simp add: py_print_keeps)
  apply (rule step_stops, simp add: py_print_keeps, simp add: py_print_keeps)
  apply (rule step_stops, simp add: py_print_keeps, simp add: py_print_keeps)
  apply (rule step_stops, simp add: py_print_keeps, simp add: py_print_keeps)
  apply (auto simp add: assms item_def closest_match_empty split: if_splits)
  done

lemma no_time_series_error_world:
  assumes "query_criteria_apogee ar apogee_id = Inr obs" and "obs \<noteq> []"
    and "get_product_list ar obs = Inr products"
    and "download_products ar products (''productSubGroupDescription'', ''ASPCAPSTAR'') = Inr manifest"
    and "manifest \<noteq> []"
    and "fits_open_aspcap ar (manifest ! 0) = Inr aspcapstar"
    and "query_criteria_tess ar (s_ra (obs ! 0)) (s_dec (obs ! 0)) = Inr []"
  shows "fst (plot_variable_star ar allstar apogee_wls apogee_id w)
           = Inl (ValueError ''attempt to get argmin of an empty sequence'') \<and>
         files (snd (plot_variable_star ar allstar apogee_wls apogee_id w)) = files w \<and>
         shown (snd (plot_variable_star ar allstar apogee_wls apogee_id w)) = shown w"
proof -
  from no_time_series_here_stops [OF assms(1) assms(7), of allstar apogee_wls w]
  obtain e w' where r: "plot_variable_star ar allstar apogee_wls apogee_id w = (Inl e, w')"
    and k: "files w' = files w" "shown w' = shown w" by blast
  from no_time_series_error [OF assms, of allstar apogee_wls w] r k
  show ?thesis by simp
qed

text \<open>
  C4, as the claim states it, fails: with a time-series query that returns no rows the
  function stops with numpy's ValueError for the argmin of an empty sequence, whose text
  does not contain the identifier.
\<close>

theorem descriptive_error_counterexample:
  "fst (plot_variable_star ex_archive ex_allstar ex_wls ''2M11361176+8117369'' ex_world)
     = Inl (ValueError ''attempt to get argmin of an empty sequence'') \<and>
   \<not> sublist ''2M11361176+8117369''
       (message (ValueError ''attempt to get argmin of an empty sequence''))"
proof -
  have "\<not> sublist ''2M11361176+8117369'' ''attempt to get argmin of an empty sequence''"
    by code_simp
  moreover have "fst (plot_variable_star ex_archive ex_allstar ex_wls ''2M11361176+8117369'' ex_world)
     = Inl (ValueError ''attempt to get argmin of an empty sequence'')"
    by (rule no_time_series_error [where obs = "[\<lparr>obs_id = ''sdss_apogee_2M11361176+8117369'', s_ra = 174, s_dec = 81, distance = Num 0\<rparr>]"
          and products = "[''sdss_apogee_2M11361176+8117369'']"
          and manifest = "[''mastDownload/sdss_apogee_2M11361176+8117369'']"
          and aspcapstar = ex_aspcap])
       (simp_all add: ex_archive_def)
  ultimately show ?thesis by simp
qed

text \<open>
  C4, amended. For every identifier for which the observation query returns zero rows, or
  the time-series query at the coordinates of the first APOGEE row returns zero rows,
  \<open>plot_variable_star\<close> stops with an error before the plot builder runs: no image file
  is written and no figure is shown. The error is the one raised by the library call or
  index operation that fails first; when the stages before the time-series query succeed,
  it is numpy's ValueError \<open>attempt to get argmin of an empty sequence\<close>.
\<close>

theorem no_data_stops_without_artifact:
  "(query_criteria_apogee ar apogee_id = Inr [] \<longrightarrow>
      (\<exists>e w'. plot_variable_star ar allstar apogee_wls apogee_id w = (Inl e, w') \<and>
               files w' = files w \<and> shown w' = shown w)) \<and>
   ((\<forall>ra dec. query_criteria_tess ar ra dec = Inr []) \<longrightarrow>
      (\<exists>e w'. plot_variable_star ar allstar apogee_wls apogee_id w = (Inl e, w') \<and>
               files w' = files w \<and> shown w' = shown w)) \<and>
   (query_criteria_apogee ar apogee_id = Inr obs \<and>
    query_criteria_tess ar (s_ra (obs ! 0)) (s_dec (obs ! 0)) = Inr [] \<longrightarrow>
      (\<exists>e w'. plot_variable_star ar allstar apogee_wls apogee_id w = (Inl e, w') \<and>
               files w' = files w \<and> shown w' = shown w)) \<and>
   (query_criteria_apogee ar apogee_id = Inr obs \<and> obs \<noteq> [] \<and>
    get_product_list ar obs = Inr products \<and>
    download_products ar products (''productSubGroupDescription'', ''ASPCAPSTAR'') = Inr manifest \<and>
    manifest \<noteq> [] \<and> fits_open_aspcap ar (manifest ! 0) = Inr aspcapstar \<and>
    query_criteria_tess ar (s_ra (obs ! 0)) (s_dec (obs ! 0)) = Inr [] \<longrightarrow>
      fst (plot_variable_star ar allstar apogee_wls apogee_id w)
        = Inl (ValueError ''attempt to get argmin of an empty sequence'') \<and>
      files (snd (plot_variable_star ar allstar apogee_wls apogee_id w)) = files w \<and>
      shown (snd (plot_variable_star ar allstar apogee_wls apogee_id w)) = shown w)"
proof (intro conjI impI)
  assume "query_criteria_apogee ar apogee_id = Inr []"
  then show "\<exists>e w'. plot_variable_star ar allstar apogee_wls apogee_id w = (Inl e, w') \<and>
               files w' = files w \<and> shown w' = shown w"
    by (rule no_observation_stops)
next
  assume "\<forall>ra dec. query_criteria_tess ar ra dec = Inr []"
  then show "\<exists>e w'. plot_variable_star ar allstar apogee_wls apogee_id w = (Inl e, w') \<and>
               files w' = files w \<and> shown w' = shown w"
    by (rule no_time_series_stops)
next
  assume a: "query_criteria_apogee ar apogee_id = Inr obs \<and>
    query_criteria_tess ar (s_ra (obs ! 0)) (s_dec (obs ! 0)) = Inr []"
  show "\<exists>e w'. plot_variable_star ar allstar apogee_wls apogee_id w = (Inl e, w') \<and>
               files w' = files w \<and> shown w' = shown w"
    by (rule no_time_series_here_stops [of ar apogee_id obs]) (simp_all add: a)
next
  assume a: "query_criteria_apogee ar apogee_id = Inr obs \<and> obs \<noteq> [] \<and>
    get_product_list ar obs = Inr products \<and>
    download_products ar products (''productSubGroupDescription'', ''ASPCAPSTAR'') = Inr manifest \<and>
    manifest \<noteq> [] \<and> fits_open_aspcap ar (manifest ! 0) = Inr aspcapstar \<and>
    query_criteria_tess ar (s_ra (obs ! 0)) (s_dec (obs ! 0)) = Inr []"
  have "fst (plot_variable_star ar allstar apogee_wls apogee_id w)
        = Inl (ValueError ''attempt to get argmin of an empty sequence'') \<and>
      files (snd (plot_variable_star ar allstar apogee_wls apogee_id w)) = files w \<and>
      shown (snd (plot_variable_star ar allstar apogee_wls apogee_id w)) = shown w"
    by (rule no_time_series_error_world [of ar apogee_id obs products manifest aspcapstar])
       (simp_all add: a)
  then show "fst (plot_variable_star ar allstar apogee_wls apogee_id w)
        = Inl (ValueError ''attempt to get argmin of an empty sequence'')"
    and "files (snd (plot_variable_star ar allstar apogee_wls apogee_id w)) = files w"
    and "shown (snd (plot_variable_star ar allstar apogee_wls apogee_id w)) = shown w"
    by simp_all
qed

theorem no_data_stops_without_artifact_witness:
  "query_criteria_apogee ex_archive_no_obs ''2M11361176+8117369'' = Inr [] \<and>
   (\<exists>e w'. plot_variable_star ex_archive_no_obs ex_allstar ex_wls ''2M11361176+8117369'' ex_world
              = (Inl e, w') \<and> files w' = Map.empty \<and> shown w' = []) \<and>
   (\<forall>ra dec. query_criteria_tess ex_archive ra dec = Inr []) \<and>
   (\<exists>e w'. plot_variable_star ex_archive ex_allstar ex_wls ''2M11361176+8117369'' ex_world
              = (Inl e, w') \<and> files w' = Map.empty \<and> shown w' = []) \<and>
   query_criteria_tess ex_archive_gap 174 81 = Inr [] \<and>
   query_criteria_tess ex_archive_gap 297 43 = Inr ex_tess_obs \<and>
   fst (plot_variable_star ex_archive_gap ex_allstar ex_wls ''2M11361176+8117369'' ex_world)
     = Inl (ValueError ''attempt to get argmin of an empty sequence'') \<and>
   files (snd (plot_variable_star ex_archive_gap ex_allstar ex_wls ''2M11361176+8117369'' ex_world))
     = Map.empty \<and>
   shown (snd (plot_variable_star ex_archive_gap ex_allstar ex_wls ''2M11361176+8117369'' ex_world))
     = []"
proof -
  let ?obs = "[\<lparr>obs_id = ''sdss_apogee_2M11361176+8117369'', s_ra = 174, s_dec = 81, distance = Num 0\<rparr>]"
  let ?products = "[''sdss_apogee_2M11361176+8117369'']"
  let ?manifest = "[''mastDownload/sdss_apogee_2M11361176+8117369'']"
  have h1: "query_criteria_apogee ex_archive_no_obs ''2M11361176+8117369'' = Inr []"
    by (simp add: ex_archive_no_obs_def ex_archive_def)
  have h2: "\<forall>ra dec. query_criteria_tess ex_archive ra dec = Inr []"
    by (simp add: ex_archive_def)
  have h3: "query_criteria_apogee ex_archive_gap ''2M11361176+8117369'' = Inr ?obs \<and> ?obs \<noteq> [] \<and>
    get_product_list ex_archive_gap ?obs = Inr ?products \<and>
    download_products ex_archive_gap ?products (''productSubGroupDescription'', ''ASPCAPSTAR'') = Inr ?manifest \<and>
    ?manifest \<noteq> [] \<and> fits_open_aspcap ex_archive_gap (?manifest ! 0) = Inr ex_aspcap \<and>
    query_criteria_tess ex_archive_gap (s_ra (?obs ! 0)) (s_dec (?obs ! 0)) = Inr []"
    by (simp add: ex_archive_gap_def ex_archive_def)
  have g: "query_criteria_tess ex_archive_gap 174 81 = Inr []"
    "query_criteria_tess ex_archive_gap 297 43 = Inr ex_tess_obs"
    by (simp_all add: ex_archive_gap_def ex_archive_def)
  have f: "files ex_world = Map.empty" "shown ex_world = []" by (simp_all add: ex_world_def)
  note t1 = no_data_stops_without_artifact
         [of ex_archive_no_obs "''2M11361176+8117369''" ex_allstar ex_wls ex_world]
  note t2 = no_data_stops_without_artifact
         [of ex_archive "''2M11361176+8117369''" ex_allstar ex_wls ex_world]
  note t3 = no_data_stops_without_artifact
         [of ex_archive_gap "''2M11361176+8117369''" ex_allstar ex_wls ex_world
             ?obs ?products ?manifest ex_aspcap]
  from t1 h1
  have 1: "\<exists>e w'. plot_variable_star ex_archive_no_obs ex_allstar ex_wls ''2M11361176+8117369'' ex_world
              = (Inl e, w') \<and> files w' = Map.empty \<and> shown w' = []"
    unfolding f by blast
  from t2 h2
  have 2: "\<exists>e w'. plot_variable_star ex_archive ex_allstar ex_wls ''2M11361176+8117369'' ex_world
              = (Inl e, w') \<and> files w' = Map.empty \<and> shown w' = []"
    unfolding f by blast
  from t3 h3
  have 3: "fst (plot_variable_star ex_archive_gap ex_allstar ex_wls ''2M11361176+8117369'' ex_world)
     = Inl (ValueError ''attempt to get argmin of an empty sequence'') \<and>
   files (snd (plot_variable_star ex_archive_gap ex_allstar ex_wls ''2M11361176+8117369'' ex_world))
     = Map.empty \<and>
   shown (snd (plot_variable_star ex_archive_gap ex_allstar ex_wls ''2M11361176+8117369'' ex_world))
     = []"
    unfolding f by blast
  from h1 h2 g 1 2 3 show ?thesis by blast
qed

end
